theory Spec2Isabelle
  imports Main "HOL-Library.Word" "HOL-Library.Sublist"
begin

section \<open>The load balancer NAT pool resource\<close>

text \<open>
  A shallow embedding of \<^verbatim>\<open>azurestack/resource_arm_loadbalancer_nat_pool.go\<close>.
  Pointers of the Go structures are options (\<open>None\<close> is \<open>nil\<close>), a dereference of
  \<open>nil\<close> is the outcome \<open>Panic NilPointerDereference\<close>, and every remote call is a call of
  an operation of the client, which threads a remote world of any type \<open>'w\<close>. Each
  operation appends the calls it makes to a log, so that their order can be stated.
\<close>

subsection \<open>Wire structures of the network SDK\<close>

type_synonym int32 = "32 word"

record SubResource =
  sr_ID :: "string option"

record FrontendIPConfiguration =
  fip_Name :: "string option"
  fip_ID :: "string option"

record InboundNatPoolPropertiesFormat =
  FrontendIPConfiguration :: "SubResource option"
  Protocol :: string
  FrontendPortRangeStart :: "int32 option"
  FrontendPortRangeEnd :: "int32 option"
  BackendPort :: "int32 option"

record InboundNatPool =
  np_Properties :: "InboundNatPoolPropertiesFormat option"
  np_Name :: "string option"
  np_Etag :: "string option"
  np_ID :: "string option"

record LoadBalancerPropertiesFormat =
  FrontendIPConfigurations :: "FrontendIPConfiguration list option"
  InboundNatPools :: "InboundNatPool list option"

record LoadBalancer =
  lb_Properties :: "LoadBalancerPropertiesFormat option"
  lb_ID :: "string option"
  lb_Name :: "string option"
  lb_Location :: "string option"

text \<open>The result of \<^verbatim>\<open>parseAzureResourceID\<close>: the resource group and the map of the
  remaining path segments. Reading a Go map at a missing key gives the empty string.\<close>

record ResourceID =
  ResourceGroup :: string
  Path :: "string \<Rightarrow> string option"

definition path_get :: "ResourceID \<Rightarrow> string \<Rightarrow> string" where
  "path_get rid k = (case Path rid k of None \<Rightarrow> [] | Some v \<Rightarrow> v)"

subsection \<open>Errors\<close>

datatype panic = NilPointerDereference | SliceBoundsOutOfRange

datatype error =
    Errorf string "string list"
  | ErrorfErr string "string list" error
  | Wrapf string error
  | External string
  | Panic panic

text \<open>
  \<open>Errorf f args\<close> is \<^verbatim>\<open>fmt.Errorf(f, args...)\<close> with string arguments, \<open>ErrorfErr\<close> the
  same with an error as the last argument, \<open>Wrapf f e\<close> is \<^verbatim>\<open>errwrap.Wrapf(f, e)\<close>,
  \<open>External\<close> is an error value that a collaborator outside this file returned, and
  \<open>Panic\<close> is a run-time panic of Go, which is no error value: the function does not
  return to its caller (its deferred calls still run).
\<close>

fun is_panic :: "error + 'a \<Rightarrow> bool" where
  "is_panic (Inl (Panic _)) = True"
| "is_panic _ = False"

fun returns_error :: "error + 'a \<Rightarrow> bool" where
  "returns_error (Inl (Panic _)) = False"
| "returns_error (Inl _) = True"
| "returns_error (Inr _) = False"

subsection \<open>The resource data of the schema\<close>

record ResourceData =
  d_Id :: string
  d_name :: string
  d_resource_group_name :: string
  d_loadbalancer_id :: string
  d_protocol :: string
  d_frontend_port_start :: int
  d_frontend_port_end :: int
  d_backend_port :: int
  d_frontend_ip_configuration_name :: string
  d_frontend_ip_configuration_id :: string

text \<open>\<^verbatim>\<open>d.Set\<close> of a nil pointer stores the zero value of the field.\<close>

definition set_string :: "string option \<Rightarrow> string" where
  "set_string p = (case p of None \<Rightarrow> [] | Some v \<Rightarrow> v)"

definition set_int32 :: "int32 option \<Rightarrow> int" where
  "set_int32 p = (case p of None \<Rightarrow> 0 | Some v \<Rightarrow> sint v)"

definition FromInt32 :: "int \<Rightarrow> int32 option" where
  \<comment> \<open>Modelled from the spec: \<^verbatim>\<open>pointer.FromInt32\<close> is not in the file. Section 4.4
      has the ports populated directly from the desired state, so it is the conversion of
      a Go \<^verbatim>\<open>int\<close> to \<^verbatim>\<open>int32\<close>, which keeps the low 32 bits, behind a pointer.\<close>
  "FromInt32 i = Some (word_of_int i)"

subsection \<open>The client, the remote world and the log of calls\<close>

type_synonym Future = nat

datatype event =
    E_Lock string
  | E_Unlock string
  | E_Retrieve string
  | E_CreateOrUpdate string string LoadBalancer
  | E_WaitForCompletion Future
  | E_Get string string
  | E_WaitForState "string list" "string list" string string

record 'w ArmClient =
  retrieveLoadBalancerById :: "string \<Rightarrow> 'w \<Rightarrow> (error + LoadBalancer option) \<times> 'w"
  resourceGroupAndLBNameFromId :: "string \<Rightarrow> error + string \<times> string"
  parseAzureResourceID :: "string \<Rightarrow> error + ResourceID"
  CreateOrUpdate :: "string \<Rightarrow> string \<Rightarrow> LoadBalancer \<Rightarrow> 'w \<Rightarrow> (error + Future) \<times> 'w"
  WaitForCompletionRef :: "Future \<Rightarrow> 'w \<Rightarrow> error option \<times> 'w"
  Get :: "string \<Rightarrow> string \<Rightarrow> 'w \<Rightarrow> (error + LoadBalancer) \<times> 'w"
  WaitForState :: "string list \<Rightarrow> string list \<Rightarrow> string \<Rightarrow> string \<Rightarrow> 'w \<Rightarrow> error option \<times> 'w"

text \<open>
  \<open>retrieveLoadBalancerById\<close> answers \<open>Inr None\<close> when the remote reports that the parent
  does not exist (the Go function returns \<^verbatim>\<open>exists = false\<close> and no error). The two
  parsers of identifiers are not in the file and are parameters of the client, as the
  remote operations are. \<open>WaitForState\<close> is the wait of the \<^verbatim>\<open>StateChangeConf\<close> with the
  pending and the target states it is given, for the parent of the given group and name.
\<close>

record 'w state =
  rdata :: ResourceData
  remote :: 'w
  calls :: "event list"

definition emit :: "event \<Rightarrow> 'w state \<Rightarrow> 'w state" where
  "emit e s = s\<lparr>calls := calls s @ [e]\<rparr>"

definition SetId :: "string \<Rightarrow> 'w state \<Rightarrow> 'w state" where
  "SetId v s = s\<lparr>rdata := (rdata s)\<lparr>d_Id := v\<rparr>\<rparr>"

subsection \<open>Locating a sub-resource by name\<close>

fun locate :: "('a \<Rightarrow> string option) \<Rightarrow> string \<Rightarrow> 'a list \<Rightarrow> nat \<Rightarrow> ('a \<times> nat) option" where
  "locate nm n [] i = None"
| "locate nm n (x # xs) i = (if nm x = Some n then Some (x, i) else locate nm n xs (Suc i))"

definition findLoadBalancerNatPoolByName :: "LoadBalancer \<Rightarrow> string \<Rightarrow> (InboundNatPool \<times> nat) option" where
  \<comment> \<open>Modelled from the spec: the helper is not in the file. Section 4.3: a linear scan
      over the NAT-pool collection comparing by exact name, which returns the element,
      its position and whether it was found; nothing is found in an absent collection.\<close>
  "findLoadBalancerNatPoolByName lb n =
     (case lb_Properties lb of
        None \<Rightarrow> None
      | Some props \<Rightarrow>
          (case InboundNatPools props of
             None \<Rightarrow> None
           | Some pools \<Rightarrow> locate np_Name n pools 0))"

definition findLoadBalancerFrontEndIpConfigurationByName :: "LoadBalancer \<Rightarrow> string \<Rightarrow> FrontendIPConfiguration option" where
  \<comment> \<open>Modelled from the spec: the helper is not in the file. Section 4.4: the same scan
      over the sibling collection of frontend IP configurations.\<close>
  "findLoadBalancerFrontEndIpConfigurationByName lb n =
     (case lb_Properties lb of
        None \<Rightarrow> None
      | Some props \<Rightarrow>
          (case FrontendIPConfigurations props of
             None \<Rightarrow> None
           | Some feips \<Rightarrow> map_option fst (locate fip_Name n feips 0)))"

subsection \<open>Building the element\<close>

definition expandAzureRmLoadBalancerNatPool :: "ResourceData \<Rightarrow> LoadBalancer \<Rightarrow> error + InboundNatPool" where
  "expandAzureRmLoadBalancerNatPool d lb =
     (let properties =
            \<lparr>FrontendIPConfiguration = None,
             Protocol = d_protocol d,
             FrontendPortRangeStart = FromInt32 (d_frontend_port_start d),
             FrontendPortRangeEnd = FromInt32 (d_frontend_port_end d),
             BackendPort = FromInt32 (d_backend_port d)\<rparr>;
          v = d_frontend_ip_configuration_name d
      in if v \<noteq> [] then
           (case findLoadBalancerFrontEndIpConfigurationByName lb v of
              None \<Rightarrow> Inl (Errorf ''Cannot find FrontEnd IP Configuration with the name %s'' [v])
            | Some rule \<Rightarrow>
                Inr \<lparr>np_Properties =
                       Some (properties\<lparr>FrontendIPConfiguration := Some \<lparr>sr_ID = fip_ID rule\<rparr>\<rparr>),
                     np_Name = Some (d_name d), np_Etag = None, np_ID = None\<rparr>)
         else
           Inr \<lparr>np_Properties = Some properties,
                np_Name = Some (d_name d), np_Etag = None, np_ID = None\<rparr>)"

subsection \<open>Read\<close>

definition resourceArmLoadBalancerNatPoolRead :: "'w ArmClient \<Rightarrow> 'w state \<Rightarrow> (error + unit) \<times> 'w state" where
  "resourceArmLoadBalancerNatPoolRead c s =
     (case parseAzureResourceID c (d_Id (rdata s)) of
        Inl err \<Rightarrow> (Inl err, s)
      | Inr rid \<Rightarrow>
          (let nm = path_get rid ''inboundNatPools'';
               lbid = d_loadbalancer_id (rdata s);
               (r, w) = retrieveLoadBalancerById c lbid (remote s);
               s1 = emit (E_Retrieve lbid) (s\<lparr>remote := w\<rparr>)
           in case r of
                Inl err \<Rightarrow> (Inl (ErrorfErr ''retrieving Load Balancer by ID: %+v'' [] err), s1)
              | Inr None \<Rightarrow> (Inr (), SetId [] s1)
              | Inr (Some loadBalancer) \<Rightarrow>
                  (case findLoadBalancerNatPoolByName loadBalancer nm of
                     None \<Rightarrow> (Inr (), SetId [] s1)
                   | Some (config, _) \<Rightarrow>
                       (let d1 = (rdata s1)
                              \<lparr>d_name := set_string (np_Name config),
                               d_resource_group_name := ResourceGroup rid\<rparr>
                        in case np_Properties config of
                             None \<Rightarrow> (Inr (), s1\<lparr>rdata := d1\<rparr>)
                           | Some props \<Rightarrow>
                               (let d2 = d1
                                      \<lparr>d_protocol := Protocol props,
                                       d_frontend_port_start := set_int32 (FrontendPortRangeStart props),
                                       d_frontend_port_end := set_int32 (FrontendPortRangeEnd props),
                                       d_backend_port := set_int32 (BackendPort props)\<rparr>
                                in case FrontendIPConfiguration props of
                                     None \<Rightarrow> (Inr (), s1\<lparr>rdata := d2\<rparr>)
                                   | Some feipConfig \<Rightarrow>
                                       (case sr_ID feipConfig of
                                          None \<Rightarrow> (Inl (Panic NilPointerDereference), s1\<lparr>rdata := d2\<rparr>)
                                        | Some fid \<Rightarrow>
                                            (case parseAzureResourceID c fid of
                                               Inl err \<Rightarrow> (Inl err, s1\<lparr>rdata := d2\<rparr>)
                                             | Inr fipID \<Rightarrow>
                                                 (Inr (), s1\<lparr>rdata := d2
                                                    \<lparr>d_frontend_ip_configuration_name :=
                                                        path_get fipID ''frontendIPConfigurations'',
                                                     d_frontend_ip_configuration_id := fid\<rparr>\<rparr>))))))))"

subsection \<open>Create and update\<close>

text \<open>\<^verbatim>\<open>append(s[:i], s[i+1:]...)\<close>: the slice expressions panic when \<open>i + 1\<close> is beyond
  the length.\<close>

definition remove_index :: "'a list \<Rightarrow> nat \<Rightarrow> error + 'a list" where
  "remove_index xs i =
     (if length xs < i + 1 then Inl (Panic SliceBoundsOutOfRange)
      else Inr (take i xs @ drop (i + 1) xs))"

text \<open>Lines 108 to 116: the working collection.\<close>

definition workingNatPools :: "LoadBalancer \<Rightarrow> InboundNatPool list \<Rightarrow> InboundNatPool \<Rightarrow> string \<Rightarrow> error + InboundNatPool list" where
  "workingNatPools loadBalancer pools newNatPool n =
     (let natPools = pools @ [newNatPool]
      in case findLoadBalancerNatPoolByName loadBalancer n of
           None \<Rightarrow> Inr natPools
         | Some (existingNatPool, existingNatPoolIndex) \<Rightarrow>
             (case np_Name existingNatPool of
                None \<Rightarrow> Inl (Panic NilPointerDereference)
              | Some en \<Rightarrow>
                  if n = en then remove_index natPools existingNatPoolIndex
                  else Inr natPools))"

text \<open>Lines 143 to 147: the loop that keeps the identifier of the last element of the
  name.\<close>

fun findCreatedNatPoolId :: "string \<Rightarrow> InboundNatPool list \<Rightarrow> string \<Rightarrow> error + string" where
  "findCreatedNatPoolId n [] natPoolId = Inr natPoolId"
| "findCreatedNatPoolId n (p # ps) natPoolId =
     (case np_Name p of
        None \<Rightarrow> Inl (Panic NilPointerDereference)
      | Some pn \<Rightarrow>
          if pn = n then
            (case np_ID p of
               None \<Rightarrow> Inl (Panic NilPointerDereference)
             | Some i \<Rightarrow> findCreatedNatPoolId n ps i)
          else findCreatedNatPoolId n ps natPoolId)"

text \<open>Lines 134 to 167: the re-fetch, the identifier, the wait for the state and the
  final read.\<close>

definition createUpdateConfirm :: "'w ArmClient \<Rightarrow> string \<Rightarrow> string \<Rightarrow> 'w state \<Rightarrow> (error + unit) \<times> 'w state" where
  "createUpdateConfirm c resGroup loadBalancerName s3 =
     (let (rg, w4) = Get c resGroup loadBalancerName (remote s3);
          s4 = emit (E_Get resGroup loadBalancerName) (s3\<lparr>remote := w4\<rparr>)
      in case rg of
           Inl err \<Rightarrow>
             (Inl (ErrorfErr ''retrieving Load Balancer %q (Resource Group %q): %+v''
                     [loadBalancerName, resGroup] err), s4)
         | Inr read \<Rightarrow>
             (case lb_ID read of
                None \<Rightarrow>
                  (Inl (Errorf ''Cannot read LoadBalancer %q (Resource Group %q) ID''
                          [loadBalancerName, resGroup]), s4)
              | Some _ \<Rightarrow>
                  (case lb_Properties read of
                     None \<Rightarrow> (Inl (Panic NilPointerDereference), s4)
                   | Some rprops \<Rightarrow>
                       (case InboundNatPools rprops of
                          None \<Rightarrow> (Inl (Panic NilPointerDereference), s4)
                        | Some rpools \<Rightarrow>
                            (case findCreatedNatPoolId (d_name (rdata s4)) rpools [] of
                               Inl e \<Rightarrow> (Inl e, s4)
                             | Inr natPoolId \<Rightarrow>
                                 if natPoolId = [] then
                                   (Inl (Errorf ''Cannot find created LoadBalancer NAT Pool ID %q''
                                           [natPoolId]), s4)
                                 else
                                   (let s5 = SetId natPoolId s4;
                                        (rs, w6) = WaitForState c [''Accepted'', ''Updating'']
                                                     [''Succeeded''] resGroup loadBalancerName (remote s5);
                                        s6 = emit (E_WaitForState [''Accepted'', ''Updating'']
                                                     [''Succeeded''] resGroup loadBalancerName)
                                               (s5\<lparr>remote := w6\<rparr>)
                                    in case rs of
                                         Some err \<Rightarrow>
                                           (Inl (ErrorfErr ''waiting for LoadBalancer (%q - Resource Group %q) to become available: %+v''
                                                   [loadBalancerName, resGroup] err), s6)
                                       | None \<Rightarrow> resourceArmLoadBalancerNatPoolRead c s6))))))"

text \<open>Lines 119 to 132: the name and group of the parent, the submit of the whole
  aggregate and the wait for the completion of the future.\<close>

definition createUpdateSubmit :: "'w ArmClient \<Rightarrow> LoadBalancer \<Rightarrow> 'w state \<Rightarrow> (error + unit) \<times> 'w state" where
  "createUpdateSubmit c loadBalancer s1 =
     (case resourceGroupAndLBNameFromId c (d_loadbalancer_id (rdata s1)) of
        Inl err \<Rightarrow> (Inl (Wrapf ''Error Getting LoadBalancer Name and Group: {{err}}'' err), s1)
      | Inr (resGroup, loadBalancerName) \<Rightarrow>
          (let (rf, w2) = CreateOrUpdate c resGroup loadBalancerName loadBalancer (remote s1);
               s2 = emit (E_CreateOrUpdate resGroup loadBalancerName loadBalancer) (s1\<lparr>remote := w2\<rparr>)
           in case rf of
                Inl err \<Rightarrow>
                  (Inl (ErrorfErr ''Creating/Updating Load Balancer %q (Resource Group %q): %+v''
                          [loadBalancerName, resGroup] err), s2)
              | Inr future \<Rightarrow>
                  (let (rw, w3) = WaitForCompletionRef c future (remote s2);
                       s3 = emit (E_WaitForCompletion future) (s2\<lparr>remote := w3\<rparr>)
                   in case rw of
                        Some err \<Rightarrow>
                          (Inl (ErrorfErr ''waiting for the completion of Load Balancer %q (Resource Group %q): %+v''
                                  [loadBalancerName, resGroup] err), s3)
                      | None \<Rightarrow> createUpdateConfirm c resGroup loadBalancerName s3)))"

text \<open>Lines 93 to 118: the body of the function between the acquisition of the lock
  and the deferred release.\<close>

definition createUpdateLocked :: "'w ArmClient \<Rightarrow> string \<Rightarrow> 'w state \<Rightarrow> (error + unit) \<times> 'w state" where
  "createUpdateLocked c loadBalancerID s =
     (let (r, w) = retrieveLoadBalancerById c loadBalancerID (remote s);
          s1 = emit (E_Retrieve loadBalancerID) (s\<lparr>remote := w\<rparr>)
      in case r of
           Inl err \<Rightarrow> (Inl (Wrapf ''Error Getting LoadBalancer By ID {{err}}'' err), s1)
         | Inr None \<Rightarrow> (Inr (), SetId [] s1)
         | Inr (Some loadBalancer) \<Rightarrow>
             (case expandAzureRmLoadBalancerNatPool (rdata s1) loadBalancer of
                Inl err \<Rightarrow> (Inl (Wrapf ''Error Expanding NAT Pool {{err}}'' err), s1)
              | Inr newNatPool \<Rightarrow>
                  (case lb_Properties loadBalancer of
                     None \<Rightarrow> (Inl (Panic NilPointerDereference), s1)
                   | Some props \<Rightarrow>
                       (case InboundNatPools props of
                          None \<Rightarrow> (Inl (Panic NilPointerDereference), s1)
                        | Some pools \<Rightarrow>
                            (case workingNatPools loadBalancer pools newNatPool (d_name (rdata s1)) of
                               Inl e \<Rightarrow> (Inl e, s1)
                             | Inr natPools \<Rightarrow>
                                 createUpdateSubmit c
                                   (loadBalancer\<lparr>lb_Properties :=
                                      Some (props\<lparr>InboundNatPools := Some natPools\<rparr>)\<rparr>) s1)))))"

text \<open>The whole function: \<^verbatim>\<open>locks.ByID\<close>, the body, and the deferred
  \<^verbatim>\<open>locks.UnlockByID\<close>, which runs on every return and on a panic.\<close>

definition resourceArmLoadBalancerNatPoolCreateUpdate :: "'w ArmClient \<Rightarrow> 'w state \<Rightarrow> (error + unit) \<times> 'w state" where
  "resourceArmLoadBalancerNatPoolCreateUpdate c s =
     (let loadBalancerID = d_loadbalancer_id (rdata s);
          (r, s') = createUpdateLocked c loadBalancerID (emit (E_Lock loadBalancerID) s)
      in (r, emit (E_Unlock loadBalancerID) s'))"

subsection \<open>Delete\<close>

text \<open>Lines 243 to 266: the submit, the wait and the re-fetch of delete.\<close>

definition deleteSubmit :: "'w ArmClient \<Rightarrow> LoadBalancer \<Rightarrow> 'w state \<Rightarrow> (error + unit) \<times> 'w state" where
  "deleteSubmit c loadBalancer s1 =
     (case resourceGroupAndLBNameFromId c (d_loadbalancer_id (rdata s1)) of
        Inl err \<Rightarrow> (Inl (Wrapf ''Error Getting LoadBalancer Name and Group: {{err}}'' err), s1)
      | Inr (resGroup, loadBalancerName) \<Rightarrow>
          (let (rf, w2) = CreateOrUpdate c resGroup loadBalancerName loadBalancer (remote s1);
               s2 = emit (E_CreateOrUpdate resGroup loadBalancerName loadBalancer) (s1\<lparr>remote := w2\<rparr>)
           in case rf of
                Inl err \<Rightarrow>
                  (Inl (ErrorfErr ''creating/updating Load Balancer %q (Resource Group %q): %+v''
                          [loadBalancerName, resGroup] err), s2)
              | Inr future \<Rightarrow>
                  (let (rw, w3) = WaitForCompletionRef c future (remote s2);
                       s3 = emit (E_WaitForCompletion future) (s2\<lparr>remote := w3\<rparr>)
                   in case rw of
                        Some err \<Rightarrow>
                          (Inl (ErrorfErr ''waiting for completion of the Load Balancer %q (Resource Group %q): %+v''
                                  [loadBalancerName, resGroup] err), s3)
                      | None \<Rightarrow>
                          (let (rg, w4) = Get c resGroup loadBalancerName (remote s3);
                               s4 = emit (E_Get resGroup loadBalancerName) (s3\<lparr>remote := w4\<rparr>)
                           in case rg of
                                Inl err \<Rightarrow> (Inl (ErrorfErr ''retrieving Load Balancer: %+v'' [] err), s4)
                              | Inr read \<Rightarrow>
                                  (case lb_ID read of
                                     None \<Rightarrow>
                                       (Inl (Errorf ''Cannot read LoadBalancer %q (Resource Group %q) ID''
                                               [loadBalancerName, resGroup]), s4)
                                   | Some _ \<Rightarrow> (Inr (), s4))))))"

text \<open>Lines 225 to 241: the body of delete between the lock and its release.\<close>

definition deleteLocked :: "'w ArmClient \<Rightarrow> string \<Rightarrow> 'w state \<Rightarrow> (error + unit) \<times> 'w state" where
  "deleteLocked c loadBalancerID s =
     (let (r, w) = retrieveLoadBalancerById c loadBalancerID (remote s);
          s1 = emit (E_Retrieve loadBalancerID) (s\<lparr>remote := w\<rparr>)
      in case r of
           Inl err \<Rightarrow> (Inl (ErrorfErr ''retrieving LoadBalancer by ID: %+v'' [] err), s1)
         | Inr None \<Rightarrow> (Inr (), SetId [] s1)
         | Inr (Some loadBalancer) \<Rightarrow>
             (case findLoadBalancerNatPoolByName loadBalancer (d_name (rdata s1)) of
                None \<Rightarrow> (Inr (), s1)
              | Some (_, index) \<Rightarrow>
                  (case lb_Properties loadBalancer of
                     None \<Rightarrow> (Inl (Panic NilPointerDereference), s1)
                   | Some props \<Rightarrow>
                       (case InboundNatPools props of
                          None \<Rightarrow> (Inl (Panic NilPointerDereference), s1)
                        | Some pools \<Rightarrow>
                            (case remove_index pools index of
                               Inl e \<Rightarrow> (Inl e, s1)
                             | Inr pools' \<Rightarrow>
                                 deleteSubmit c
                                   (loadBalancer\<lparr>lb_Properties :=
                                      Some (props\<lparr>InboundNatPools := Some pools'\<rparr>)\<rparr>) s1)))))"

definition resourceArmLoadBalancerNatPoolDelete :: "'w ArmClient \<Rightarrow> 'w state \<Rightarrow> (error + unit) \<times> 'w state" where
  "resourceArmLoadBalancerNatPoolDelete c s =
     (let loadBalancerID = d_loadbalancer_id (rdata s);
          (r, s') = deleteLocked c loadBalancerID (emit (E_Lock loadBalancerID) s)
      in (r, emit (E_Unlock loadBalancerID) s'))"

subsection \<open>Reading the log of calls\<close>

fun submitted :: "event list \<Rightarrow> LoadBalancer list" where
  "submitted [] = []"
| "submitted (E_CreateOrUpdate rg n lb # es) = lb # submitted es"
| "submitted (_ # es) = submitted es"

datatype call =
    C_Lock
  | C_Unlock
  | C_Retrieve
  | C_CreateOrUpdate
  | C_WaitForCompletion
  | C_Get
  | C_WaitForState "string list" "string list"

fun call_of :: "event \<Rightarrow> call" where
  "call_of (E_Lock k) = C_Lock"
| "call_of (E_Unlock k) = C_Unlock"
| "call_of (E_Retrieve k) = C_Retrieve"
| "call_of (E_CreateOrUpdate rg n lb) = C_CreateOrUpdate"
| "call_of (E_WaitForCompletion f) = C_WaitForCompletion"
| "call_of (E_Get rg n) = C_Get"
| "call_of (E_WaitForState pending target rg n) = C_WaitForState pending target"

fun is_lock_call :: "call \<Rightarrow> bool" where
  "is_lock_call C_Lock = True"
| "is_lock_call C_Unlock = True"
| "is_lock_call _ = False"


text \<open>The remote calls of create and update, in the order of the source.\<close>

definition create_update_calls :: "call list" where
  "create_update_calls =
     [C_Retrieve, C_CreateOrUpdate, C_WaitForCompletion, C_Get,
      C_WaitForState [''Accepted'', ''Updating''] [''Succeeded''], C_Retrieve]"

definition delete_calls :: "call list" where
  "delete_calls = [C_Retrieve, C_CreateOrUpdate, C_WaitForCompletion, C_Get]"

text \<open>The calls that a run from the state \<open>s\<close> added to the log.\<close>

definition added :: "'w state \<Rightarrow> (error + unit) \<times> 'w state \<Rightarrow> event list" where
  "added s r = drop (length (calls s)) (calls (snd r))"

definition named :: "string \<Rightarrow> InboundNatPool \<Rightarrow> bool" where
  "named n p = (np_Name p = Some n)"

subsection \<open>The fields of the desired state\<close>



subsection \<open>Two remotes for examples\<close>

text \<open>A remote whose every operation gives one fixed answer.\<close>

definition fixed_client ::
  "(error + LoadBalancer option) \<Rightarrow> (error + string \<times> string) \<Rightarrow> (string \<Rightarrow> error + ResourceID) \<Rightarrow>
   (error + Future) \<Rightarrow> error option \<Rightarrow> (error + LoadBalancer) \<Rightarrow> error option \<Rightarrow> unit ArmClient" where
  "fixed_client fetched names parse future completion got settled =
     \<lparr>retrieveLoadBalancerById = (\<lambda>k w. (fetched, w)),
      resourceGroupAndLBNameFromId = (\<lambda>k. names),
      parseAzureResourceID = parse,
      CreateOrUpdate = (\<lambda>rg n lb w. (future, w)),
      WaitForCompletionRef = (\<lambda>f w. (completion, w)),
      Get = (\<lambda>rg n w. (got, w)),
      WaitForState = (\<lambda>pending target rg n w. (settled, w))\<rparr>"

text \<open>A remote that keeps the one parent it was given: a submit stores the aggregate
  and assigns an identifier to every NAT pool, and every fetch answers what is stored.\<close>

definition assign_ids :: "(string \<Rightarrow> string) \<Rightarrow> LoadBalancer \<Rightarrow> LoadBalancer" where
  "assign_ids mkid lb =
     lb\<lparr>lb_Properties :=
          map_option
            (\<lambda>props. props\<lparr>InboundNatPools :=
               map_option (map (\<lambda>p. p\<lparr>np_ID := Some (mkid (set_string (np_Name p)))\<rparr>))
                 (InboundNatPools props)\<rparr>)
            (lb_Properties lb)\<rparr>"

definition store_client ::
  "(string \<Rightarrow> error + string \<times> string) \<Rightarrow> (string \<Rightarrow> error + ResourceID) \<Rightarrow> (string \<Rightarrow> string) \<Rightarrow>
   LoadBalancer option ArmClient" where
  "store_client names parse mkid =
     \<lparr>retrieveLoadBalancerById = (\<lambda>k w. (Inr w, w)),
      resourceGroupAndLBNameFromId = names,
      parseAzureResourceID = parse,
      CreateOrUpdate = (\<lambda>rg n lb w. (Inr 0, Some (assign_ids mkid lb))),
      WaitForCompletionRef = (\<lambda>f w. (None, w)),
      Get = (\<lambda>rg n w. (case w of None \<Rightarrow> Inl (External ''not found'') | Some lb \<Rightarrow> Inr lb, w)),
      WaitForState = (\<lambda>pending target rg n w. (None, w))\<rparr>"

text \<open>The example of section 8 of the specification.\<close>

definition ex_feip :: FrontendIPConfiguration where
  "ex_feip = \<lparr>fip_Name = Some ''feip1'', fip_ID = Some ''/lb1/frontendIPConfigurations/feip1''\<rparr>"

definition ex_pool :: "string \<Rightarrow> int \<Rightarrow> InboundNatPool" where
  "ex_pool n port =
     \<lparr>np_Properties = Some
        \<lparr>FrontendIPConfiguration = Some \<lparr>sr_ID = Some ''/lb1/frontendIPConfigurations/feip1''\<rparr>,
         Protocol = ''Tcp'',
         FrontendPortRangeStart = Some 50000,
         FrontendPortRangeEnd = Some 50100,
         BackendPort = Some (word_of_int port)\<rparr>,
      np_Name = Some n, np_Etag = None, np_ID = Some (''/lb1/inboundNatPools/'' @ n)\<rparr>"

definition ex_lb :: "InboundNatPool list \<Rightarrow> LoadBalancer" where
  "ex_lb pools =
     \<lparr>lb_Properties = Some \<lparr>FrontendIPConfigurations = Some [ex_feip], InboundNatPools = Some pools\<rparr>,
      lb_ID = Some ''/lb1'', lb_Name = Some ''lb1'', lb_Location = Some ''local''\<rparr>"

definition ex_parse :: "string \<Rightarrow> error + ResourceID" where
  "ex_parse s =
     (if s = ''/lb1/inboundNatPools/pool1'' then
        Inr \<lparr>ResourceGroup = ''rg1'', Path = [''inboundNatPools'' \<mapsto> ''pool1'']\<rparr>
      else if s = ''/lb1/frontendIPConfigurations/feip1'' then
        Inr \<lparr>ResourceGroup = ''rg1'', Path = [''frontendIPConfigurations'' \<mapsto> ''feip1'']\<rparr>
      else Inl (External ''malformed identifier''))"

definition ex_d :: "string \<Rightarrow> ResourceData" where
  "ex_d feip =
     \<lparr>d_Id = [], d_name = ''pool1'', d_resource_group_name = ''rg1'', d_loadbalancer_id = ''/lb1'',
      d_protocol = ''Tcp'', d_frontend_port_start = 50000, d_frontend_port_end = 50100,
      d_backend_port = 22, d_frontend_ip_configuration_name = feip,
      d_frontend_ip_configuration_id = []\<rparr>"

definition ex_state :: "string \<Rightarrow> 'w \<Rightarrow> 'w state" where
  "ex_state feip w = \<lparr>rdata = ex_d feip, remote = w, calls = []\<rparr>"

section \<open>Properties\<close>

subsection \<open>The log and the state\<close>


lemma calls_emit: "calls (emit e s) = calls s @ [e]"
  by (simp add: emit_def)

lemma rdata_emit: "rdata (emit e s) = rdata s"
  by (simp add: emit_def)

lemma remote_emit: "remote (emit e s) = remote s"
  by (simp add: emit_def)

lemma submitted_append: "submitted (xs @ ys) = submitted xs @ submitted ys"
  by (induction xs rule: submitted.induct) simp_all

lemma submitted_none: "C_CreateOrUpdate \<notin> set (map call_of es) \<Longrightarrow> submitted es = []"
  by (induction es rule: submitted.induct) simp_all

lemma submitted_prefix:
  assumes "prefix (map call_of es) cs" and "C_CreateOrUpdate \<notin> set cs"
  shows "submitted es = []"
proof -
  have "set (map call_of es) \<subseteq> set cs"
    using assms(1) by (rule set_mono_prefix)
  with assms(2) show ?thesis
    by (intro submitted_none) blast
qed

lemma read_calls [simp]:
  "calls (snd (resourceArmLoadBalancerNatPoolRead c s)) =
     calls s @ added s (resourceArmLoadBalancerNatPoolRead c s)"
  unfolding added_def
  by (simp add: resourceArmLoadBalancerNatPoolRead_def Let_def calls_emit SetId_def
      split: sum.splits option.splits prod.splits)

lemma read_added:
  "prefix (map call_of (added s (resourceArmLoadBalancerNatPoolRead c s))) [C_Retrieve]"
  unfolding added_def
  by (simp add: resourceArmLoadBalancerNatPoolRead_def Let_def calls_emit SetId_def
      split: sum.splits option.splits prod.splits)

lemma confirm_calls [simp]:
  "calls (snd (createUpdateConfirm c rg n s)) = calls s @ added s (createUpdateConfirm c rg n s)"
  unfolding added_def
  by (simp add: createUpdateConfirm_def Let_def calls_emit SetId_def
      split: sum.splits option.splits prod.splits)

lemma confirm_added:
  "prefix (map call_of (added s (createUpdateConfirm c rg n s)))
     [C_Get, C_WaitForState [''Accepted'', ''Updating''] [''Succeeded''], C_Retrieve]"
  unfolding added_def
  by (simp add: read_added createUpdateConfirm_def Let_def calls_emit SetId_def
      split: sum.splits option.splits prod.splits)

lemma submit_calls [simp]:
  "calls (snd (createUpdateSubmit c lb s)) = calls s @ added s (createUpdateSubmit c lb s)"
  unfolding added_def
  by (simp add: createUpdateSubmit_def Let_def calls_emit
      split: sum.splits option.splits prod.splits)

lemma submit_added:
  "prefix (map call_of (added s (createUpdateSubmit c lb s)))
     [C_CreateOrUpdate, C_WaitForCompletion, C_Get,
      C_WaitForState [''Accepted'', ''Updating''] [''Succeeded''], C_Retrieve]"
  unfolding added_def
  by (simp add: confirm_added createUpdateSubmit_def Let_def calls_emit
      split: sum.splits option.splits prod.splits)

lemma locked_calls [simp]:
  "calls (snd (createUpdateLocked c k s)) = calls s @ added s (createUpdateLocked c k s)"
  unfolding added_def
  by (simp add: createUpdateLocked_def Let_def calls_emit SetId_def
      split: sum.splits option.splits prod.splits)

lemma locked_added:
  "prefix (map call_of (added s (createUpdateLocked c k s))) create_update_calls"
  unfolding added_def
  by (simp add: submit_added createUpdateLocked_def Let_def calls_emit SetId_def create_update_calls_def
      split: sum.splits option.splits prod.splits)

subsection \<open>The parent is gone\<close>

text \<open>
  C4: whenever the fetch reports that the parent load balancer does not exist, create and
  update clears the identifier of the resource and returns no error; it builds no element
  and submits nothing: its only calls are the lock, the fetch and the release, and nothing
  else of the state changes.
\<close>

theorem create_update_parent_gone:
  assumes "retrieveLoadBalancerById c (d_loadbalancer_id (rdata s)) (remote s) = (Inr None, w)"
  shows "resourceArmLoadBalancerNatPoolCreateUpdate c s =
           (Inr (),
            s\<lparr>rdata := (rdata s)\<lparr>d_Id := []\<rparr>,
              remote := w,
              calls := calls s @ [E_Lock (d_loadbalancer_id (rdata s)),
                                  E_Retrieve (d_loadbalancer_id (rdata s)),
                                  E_Unlock (d_loadbalancer_id (rdata s))]\<rparr>)"
  using assms
  by (simp add: resourceArmLoadBalancerNatPoolCreateUpdate_def createUpdateLocked_def
      emit_def SetId_def Let_def)

theorem create_update_parent_gone_witness:
  "resourceArmLoadBalancerNatPoolCreateUpdate
     (store_client (\<lambda>k. Inr (''rg1'', ''lb1'')) ex_parse (\<lambda>n. ''/lb1/inboundNatPools/'' @ n))
     (ex_state ''feip1'' None) =
   (Inr (),
    \<lparr>rdata = (ex_d ''feip1'')\<lparr>d_Id := []\<rparr>, remote = None,
     calls = [E_Lock ''/lb1'', E_Retrieve ''/lb1'', E_Unlock ''/lb1'']\<rparr>)"
  using create_update_parent_gone
    [of "store_client (\<lambda>k. Inr (''rg1'', ''lb1'')) ex_parse (\<lambda>n. ''/lb1/inboundNatPools/'' @ n)"
        "ex_state ''feip1'' None" None]
  by (simp add: store_client_def ex_state_def ex_d_def)

subsection \<open>The element builder\<close>

text \<open>
  C10: when the name of the frontend IP configuration in the desired state is the empty
  string, the builder succeeds, whatever the parent is (the sibling lookup is skipped),
  and the element it returns carries no reference to a frontend IP configuration.
\<close>

theorem expand_without_frontend:
  assumes "d_frontend_ip_configuration_name d = []"
  shows "expandAzureRmLoadBalancerNatPool d lb =
           Inr \<lparr>np_Properties = Some
                  \<lparr>FrontendIPConfiguration = None,
                   Protocol = d_protocol d,
                   FrontendPortRangeStart = FromInt32 (d_frontend_port_start d),
                   FrontendPortRangeEnd = FromInt32 (d_frontend_port_end d),
                   BackendPort = FromInt32 (d_backend_port d)\<rparr>,
                np_Name = Some (d_name d), np_Etag = None, np_ID = None\<rparr>"
  using assms by (simp add: expandAzureRmLoadBalancerNatPool_def)

theorem expand_without_frontend_witness:
  "expandAzureRmLoadBalancerNatPool (ex_d []) (ex_lb []) =
     Inr \<lparr>np_Properties = Some
            \<lparr>FrontendIPConfiguration = None, Protocol = ''Tcp'',
             FrontendPortRangeStart = Some 50000, FrontendPortRangeEnd = Some 50100,
             BackendPort = Some 22\<rparr>,
          np_Name = Some ''pool1'', np_Etag = None, np_ID = None\<rparr>"
  using expand_without_frontend [of "ex_d []" "ex_lb []"]
  by (simp add: ex_d_def FromInt32_def)

text \<open>
  C3: when the desired state names a frontend IP configuration that is not in the fetched
  parent's collection of frontend IP configurations, create and update returns an error
  that carries the missing name, and no submit was made: the only calls are the lock, the
  fetch and the release.
\<close>

theorem missing_frontend_fails_before_submit:
  assumes "retrieveLoadBalancerById c (d_loadbalancer_id (rdata s)) (remote s) = (Inr (Some lb), w)"
    and "d_frontend_ip_configuration_name (rdata s) \<noteq> []"
    and "findLoadBalancerFrontEndIpConfigurationByName lb (d_frontend_ip_configuration_name (rdata s)) = None"
  shows "resourceArmLoadBalancerNatPoolCreateUpdate c s =
           (Inl (Wrapf ''Error Expanding NAT Pool {{err}}''
                   (Errorf ''Cannot find FrontEnd IP Configuration with the name %s''
                      [d_frontend_ip_configuration_name (rdata s)])),
            s\<lparr>remote := w,
              calls := calls s @ [E_Lock (d_loadbalancer_id (rdata s)),
                                  E_Retrieve (d_loadbalancer_id (rdata s)),
                                  E_Unlock (d_loadbalancer_id (rdata s))]\<rparr>)
         \<and> submitted (calls (snd (resourceArmLoadBalancerNatPoolCreateUpdate c s))) = submitted (calls s)"
  using assms
  by (simp add: resourceArmLoadBalancerNatPoolCreateUpdate_def createUpdateLocked_def
      expandAzureRmLoadBalancerNatPool_def emit_def submitted_append Let_def)

theorem missing_frontend_fails_before_submit_witness:
  "resourceArmLoadBalancerNatPoolCreateUpdate
     (store_client (\<lambda>k. Inr (''rg1'', ''lb1'')) ex_parse (\<lambda>n. ''/lb1/inboundNatPools/'' @ n))
     (ex_state ''missing'' (Some (ex_lb []))) =
   (Inl (Wrapf ''Error Expanding NAT Pool {{err}}''
           (Errorf ''Cannot find FrontEnd IP Configuration with the name %s'' [''missing''])),
    \<lparr>rdata = ex_d ''missing'', remote = Some (ex_lb []),
     calls = [E_Lock ''/lb1'', E_Retrieve ''/lb1'', E_Unlock ''/lb1'']\<rparr>)
   \<and> submitted (calls (snd (resourceArmLoadBalancerNatPoolCreateUpdate
        (store_client (\<lambda>k. Inr (''rg1'', ''lb1'')) ex_parse (\<lambda>n. ''/lb1/inboundNatPools/'' @ n))
        (ex_state ''missing'' (Some (ex_lb [])))))) = []"
  using missing_frontend_fails_before_submit
    [of "store_client (\<lambda>k. Inr (''rg1'', ''lb1'')) ex_parse (\<lambda>n. ''/lb1/inboundNatPools/'' @ n)"
        "ex_state ''missing'' (Some (ex_lb []))" "ex_lb []" "Some (ex_lb [])"]
  by (simp add: store_client_def ex_state_def ex_d_def ex_lb_def ex_feip_def
      findLoadBalancerFrontEndIpConfigurationByName_def)

lemma delete_submit_calls [simp]:
  "calls (snd (deleteSubmit c lb s)) = calls s @ added s (deleteSubmit c lb s)"
  unfolding added_def
  by (simp add: deleteSubmit_def Let_def calls_emit
      split: sum.splits option.splits prod.splits)

lemma delete_submit_added:
  "prefix (map call_of (added s (deleteSubmit c lb s)))
     [C_CreateOrUpdate, C_WaitForCompletion, C_Get]"
  unfolding added_def
  by (simp add: deleteSubmit_def Let_def calls_emit
      split: sum.splits option.splits prod.splits)

lemma delete_locked_calls [simp]:
  "calls (snd (deleteLocked c k s)) = calls s @ added s (deleteLocked c k s)"
  unfolding added_def
  by (simp add: deleteLocked_def Let_def calls_emit SetId_def
      split: sum.splits option.splits prod.splits)

lemma delete_locked_added:
  "prefix (map call_of (added s (deleteLocked c k s))) delete_calls"
  unfolding added_def
  by (simp add: delete_submit_added deleteLocked_def Let_def calls_emit SetId_def delete_calls_def
      split: sum.splits option.splits prod.splits)

lemma no_lock_in_prefix:
  assumes "prefix cs ds" and "filter is_lock_call ds = []"
  shows "filter is_lock_call cs = []"
proof -
  from assms(1) obtain zs where "ds = cs @ zs"
    by (auto simp: prefix_def)
  with assms(2) show ?thesis by simp
qed

lemma create_update_log:
  "calls (snd (resourceArmLoadBalancerNatPoolCreateUpdate c s)) =
     calls s @ [E_Lock (d_loadbalancer_id (rdata s))]
       @ added (emit (E_Lock (d_loadbalancer_id (rdata s))) s)
           (createUpdateLocked c (d_loadbalancer_id (rdata s))
              (emit (E_Lock (d_loadbalancer_id (rdata s))) s))
       @ [E_Unlock (d_loadbalancer_id (rdata s))]"
  by (simp add: resourceArmLoadBalancerNatPoolCreateUpdate_def Let_def calls_emit
      case_prod_beta)

lemma delete_log:
  "calls (snd (resourceArmLoadBalancerNatPoolDelete c s)) =
     calls s @ [E_Lock (d_loadbalancer_id (rdata s))]
       @ added (emit (E_Lock (d_loadbalancer_id (rdata s))) s)
           (deleteLocked c (d_loadbalancer_id (rdata s))
              (emit (E_Lock (d_loadbalancer_id (rdata s))) s))
       @ [E_Unlock (d_loadbalancer_id (rdata s))]"
  by (simp add: resourceArmLoadBalancerNatPoolDelete_def Let_def calls_emit
      case_prod_beta)

subsection \<open>The lock and the order of the calls\<close>

text \<open>
  C2: every execution of create and update, and of delete, acquires the lock keyed by the
  identifier of the parent load balancer before any remote call, and releases it on every
  exit path, error returns included: the calls that a run adds to the log start with the
  acquisition and end with the release, and no other lock call lies between them. The
  read operation makes no lock call.
\<close>

theorem lock_discipline:
  "(\<exists>mid. calls (snd (resourceArmLoadBalancerNatPoolCreateUpdate c s)) =
            calls s @ [E_Lock (d_loadbalancer_id (rdata s))] @ mid
              @ [E_Unlock (d_loadbalancer_id (rdata s))]
          \<and> filter is_lock_call (map call_of mid) = [])
   \<and> (\<exists>mid. calls (snd (resourceArmLoadBalancerNatPoolDelete c s)) =
            calls s @ [E_Lock (d_loadbalancer_id (rdata s))] @ mid
              @ [E_Unlock (d_loadbalancer_id (rdata s))]
          \<and> filter is_lock_call (map call_of mid) = [])
   \<and> (\<exists>mid. calls (snd (resourceArmLoadBalancerNatPoolRead c s)) = calls s @ mid
          \<and> filter is_lock_call (map call_of mid) = [])"
proof (intro conjI)
  let ?k = "d_loadbalancer_id (rdata s)"
  let ?s1 = "emit (E_Lock ?k) s"
  have "filter is_lock_call (map call_of (added ?s1 (createUpdateLocked c ?k ?s1))) = []"
    by (rule no_lock_in_prefix [OF locked_added]) (simp add: create_update_calls_def)
  then show "\<exists>mid. calls (snd (resourceArmLoadBalancerNatPoolCreateUpdate c s)) =
            calls s @ [E_Lock ?k] @ mid @ [E_Unlock ?k]
          \<and> filter is_lock_call (map call_of mid) = []"
    using create_update_log [of c s] by blast
  have "filter is_lock_call (map call_of (added ?s1 (deleteLocked c ?k ?s1))) = []"
    by (rule no_lock_in_prefix [OF delete_locked_added]) (simp add: delete_calls_def)
  then show "\<exists>mid. calls (snd (resourceArmLoadBalancerNatPoolDelete c s)) =
            calls s @ [E_Lock ?k] @ mid @ [E_Unlock ?k]
          \<and> filter is_lock_call (map call_of mid) = []"
    using delete_log [of c s] by blast
  have "filter is_lock_call (map call_of (added s (resourceArmLoadBalancerNatPoolRead c s))) = []"
    by (rule no_lock_in_prefix [OF read_added]) simp
  then show "\<exists>mid. calls (snd (resourceArmLoadBalancerNatPoolRead c s)) = calls s @ mid
          \<and> filter is_lock_call (map call_of mid) = []"
    using read_calls [of c s] by blast
qed



subsection \<open>The re-fetch\<close>

text \<open>
  C6: after a successful submit and wait, a re-fetched aggregate that carries an
  identifier and no properties makes create and update dereference nil: the run ends in
  a panic, not in an error value.
\<close>

theorem refetch_without_properties_panics:
  "fst (resourceArmLoadBalancerNatPoolCreateUpdate
          (fixed_client (Inr (Some (ex_lb []))) (Inr (''rg1'', ''lb1'')) ex_parse (Inr 0) None
             (Inr \<lparr>lb_Properties = None, lb_ID = Some ''/lb1'', lb_Name = Some ''lb1'',
                   lb_Location = Some ''local''\<rparr>) None)
          (ex_state ''feip1'' ())) = Inl (Panic NilPointerDereference)"
  by code_simp

subsection \<open>The local mutation of the collection\<close>

lemma locate_None_iff: "locate nm n xs i = None \<longleftrightarrow> filter (\<lambda>x. nm x = Some n) xs = []"
  by (induction xs arbitrary: i) simp_all

lemma locate_Some:
  "locate nm n xs i = Some (x, j) \<Longrightarrow>
     i \<le> j \<and> j - i < length xs \<and> xs ! (j - i) = x \<and> nm x = Some n
     \<and> filter (\<lambda>x. nm x = Some n) (take (j - i) xs) = []"
proof (induction xs arbitrary: i)
  case Nil
  then show ?case by simp
next
  case (Cons y ys)
  show ?case
  proof (cases "nm y = Some n")
    case True
    with Cons.prems show ?thesis by simp
  next
    case False
    with Cons.prems have "locate nm n ys (Suc i) = Some (x, j)" by simp
    from Cons.IH [OF this] have *: "Suc i \<le> j" "j - Suc i < length ys" "ys ! (j - Suc i) = x"
      "nm x = Some n" "filter (\<lambda>x. nm x = Some n) (take (j - Suc i) ys) = []"
      by simp_all
    from *(1) have "j - i = Suc (j - Suc i)" by simp
    with * False show ?thesis by simp
  qed
qed

lemma locate_Some_0:
  assumes "locate nm n xs 0 = Some (x, j)"
  shows "j < length xs" and "xs ! j = x" and "nm x = Some n"
    and "filter (\<lambda>x. nm x = Some n) (take j xs) = []"
  using locate_Some [OF assms] by simp_all

lemma find_nat_pool:
  assumes "lb_Properties lb = Some props" and "InboundNatPools props = Some pools"
  shows "findLoadBalancerNatPoolByName lb n = locate np_Name n pools 0"
  using assms by (simp add: findLoadBalancerNatPoolByName_def)

lemma remove_index_in_range:
  "i < length xs \<Longrightarrow> remove_index xs i = Inr (take i xs @ drop (Suc i) xs)"
  by (simp add: remove_index_def)

lemma working_not_found:
  assumes "lb_Properties lb = Some props" and "InboundNatPools props = Some pools"
    and "locate np_Name n pools 0 = None"
  shows "workingNatPools lb pools new n = Inr (pools @ [new])"
  using assms by (simp add: workingNatPools_def find_nat_pool)

lemma working_found:
  assumes "lb_Properties lb = Some props" and "InboundNatPools props = Some pools"
    and "locate np_Name n pools 0 = Some (e, i)"
  shows "workingNatPools lb pools new n = Inr (take i pools @ drop (Suc i) pools @ [new])"
proof -
  from locate_Some_0 [OF assms(3)] have "i < length pools" and "np_Name e = Some n"
    by simp_all
  then show ?thesis
    using assms by (simp add: workingNatPools_def find_nat_pool remove_index_def)
qed

lemma expand_name:
  "expandAzureRmLoadBalancerNatPool d lb = Inr new \<Longrightarrow> np_Name new = Some (d_name d)"
  by (auto simp: expandAzureRmLoadBalancerNatPool_def Let_def split: if_splits option.splits)

lemma confirm_submitted:
  "submitted (added s (createUpdateConfirm c rg n s)) = []"
  by (rule submitted_prefix [OF confirm_added]) simp

lemma submit_submitted:
  assumes "resourceGroupAndLBNameFromId c (d_loadbalancer_id (rdata s)) = Inr (rg, n)"
  shows "submitted (added s (createUpdateSubmit c lb s)) = [lb]"
  using assms unfolding added_def
  by (simp add: createUpdateSubmit_def Let_def calls_emit submitted_append confirm_submitted
      split: sum.splits option.splits prod.splits)

lemma delete_submit_submitted:
  assumes "resourceGroupAndLBNameFromId c (d_loadbalancer_id (rdata s)) = Inr (rg, n)"
  shows "submitted (added s (deleteSubmit c lb s)) = [lb]"
  using assms unfolding added_def
  by (simp add: deleteSubmit_def Let_def calls_emit submitted_append
      split: sum.splits option.splits prod.splits)

lemma create_update_submits:
  assumes "retrieveLoadBalancerById c (d_loadbalancer_id (rdata s)) (remote s) = (Inr (Some lb), w)"
    and "lb_Properties lb = Some props" and "InboundNatPools props = Some pools"
    and "expandAzureRmLoadBalancerNatPool (rdata s) lb = Inr new"
    and "workingNatPools lb pools new (d_name (rdata s)) = Inr natPools"
    and "resourceGroupAndLBNameFromId c (d_loadbalancer_id (rdata s)) = Inr (rg, n)"
  shows "submitted (calls (snd (resourceArmLoadBalancerNatPoolCreateUpdate c s))) =
           submitted (calls s)
             @ [lb\<lparr>lb_Properties := Some (props\<lparr>InboundNatPools := Some natPools\<rparr>)\<rparr>]"
  using assms
  by (simp add: resourceArmLoadBalancerNatPoolCreateUpdate_def createUpdateLocked_def Let_def
      case_prod_beta calls_emit rdata_emit remote_emit submitted_append submit_submitted)

lemma delete_submits:
  assumes "retrieveLoadBalancerById c (d_loadbalancer_id (rdata s)) (remote s) = (Inr (Some lb), w)"
    and "lb_Properties lb = Some props" and "InboundNatPools props = Some pools"
    and "locate np_Name (d_name (rdata s)) pools 0 = Some (e, i)"
    and "resourceGroupAndLBNameFromId c (d_loadbalancer_id (rdata s)) = Inr (rg, n)"
  shows "submitted (calls (snd (resourceArmLoadBalancerNatPoolDelete c s))) =
           submitted (calls s)
             @ [lb\<lparr>lb_Properties := Some (props\<lparr>InboundNatPools :=
                    Some (take i pools @ drop (Suc i) pools)\<rparr>)\<rparr>]"
proof -
  from locate_Some_0 [OF assms(4)] have "i < length pools" by simp
  then show ?thesis
    using assms
    by (simp add: resourceArmLoadBalancerNatPoolDelete_def deleteLocked_def Let_def
        case_prod_beta calls_emit rdata_emit remote_emit submitted_append delete_submit_submitted
        find_nat_pool remove_index_def)
qed

lemma named_filter: "filter (named n) xs = filter (\<lambda>p. np_Name p = Some n) xs"
  by (simp add: named_def [abs_def])

lemma nothing_named_after:
  assumes "locate np_Name n pools 0 = Some (e, i)"
    and "length (filter (named n) pools) = 1"
  shows "filter (named n) (take i pools @ drop (Suc i) pools) = []"
proof -
  from locate_Some_0 [OF assms(1)]
  have i: "i < length pools" and e: "np_Name (pools ! i) = Some n"
    and front: "filter (named n) (take i pools) = []"
    by (simp_all add: named_filter)
  from i have "pools = take i pools @ pools ! i # drop (Suc i) pools"
    by (rule id_take_nth_drop)
  then have "filter (named n) pools =
      filter (named n) (take i pools) @ filter (named n) (pools ! i # drop (Suc i) pools)"
    by (metis filter_append)
  with front e have "filter (named n) pools = pools ! i # filter (named n) (drop (Suc i) pools)"
    by (simp add: named_def)
  with assms(2) have "filter (named n) (drop (Suc i) pools) = []"
    by simp
  with front show ?thesis by simp
qed

lemma others_kept:
  assumes "locate np_Name n pools 0 = Some (e, i)"
  shows "filter (\<lambda>p. \<not> named n p) (take i pools @ drop (Suc i) pools) =
         filter (\<lambda>p. \<not> named n p) pools"
proof -
  from locate_Some_0 [OF assms]
  have i: "i < length pools" and e: "named n (pools ! i)"
    by (simp_all add: named_def)
  from i have "pools = take i pools @ pools ! i # drop (Suc i) pools"
    by (rule id_take_nth_drop)
  then have "filter (\<lambda>p. \<not> named n p) pools =
      filter (\<lambda>p. \<not> named n p) (take i pools)
        @ filter (\<lambda>p. \<not> named n p) (pools ! i # drop (Suc i) pools)"
    by (metis filter_append)
  with e show ?thesis by simp
qed

text \<open>
  C1: when the desired name matches an element of the fetched parent's NAT-pool collection
  (whose names are unique, the invariant of the data model, so the name occurs once), the
  collection that create and update submits holds exactly one element of that name, and
  it is the newly built element: the old entry is replaced whole.
\<close>

theorem create_update_overwrites:
  assumes "retrieveLoadBalancerById c (d_loadbalancer_id (rdata s)) (remote s) = (Inr (Some lb), w)"
    and "lb_Properties lb = Some props" and "InboundNatPools props = Some pools"
    and "length (filter (named (d_name (rdata s))) pools) = 1"
    and "expandAzureRmLoadBalancerNatPool (rdata s) lb = Inr new"
    and "resourceGroupAndLBNameFromId c (d_loadbalancer_id (rdata s)) = Inr (rg, n)"
  shows "\<exists>natPools.
           submitted (calls (snd (resourceArmLoadBalancerNatPoolCreateUpdate c s))) =
             submitted (calls s)
               @ [lb\<lparr>lb_Properties := Some (props\<lparr>InboundNatPools := Some natPools\<rparr>)\<rparr>]
           \<and> filter (named (d_name (rdata s))) natPools = [new]"
proof -
  let ?n = "d_name (rdata s)"
  from assms(4) have "filter (\<lambda>p. np_Name p = Some ?n) pools \<noteq> []"
    by (auto simp: named_filter)
  then have "locate np_Name ?n pools 0 \<noteq> None"
    by (simp add: locate_None_iff)
  then obtain e i where found: "locate np_Name ?n pools 0 = Some (e, i)"
    by auto
  have working: "workingNatPools lb pools new ?n = Inr (take i pools @ drop (Suc i) pools @ [new])"
    by (rule working_found [OF assms(2,3) found])
  have "named ?n new"
    using expand_name [OF assms(5)] by (simp add: named_def)
  then have "filter (named ?n) (take i pools @ drop (Suc i) pools @ [new]) = [new]"
    using nothing_named_after [OF found assms(4)] by simp
  with create_update_submits [OF assms(1,2,3,5) working assms(6)] show ?thesis
    by blast
qed

text \<open>
  C9: the mutation made before the submit touches only the element of the desired name.
  In create and update the submitted collection is a list \<open>kept\<close> followed by the new
  element, and the pools of \<open>kept\<close> whose name differs from the desired name are those
  of the fetched collection, unchanged and in their order. In delete the submitted
  collection is the fetched one without the single element at the located index. Nothing
  else of the parent changes in either.
\<close>

theorem mutation_frame:
  assumes "retrieveLoadBalancerById c (d_loadbalancer_id (rdata s)) (remote s) = (Inr (Some lb), w)"
    and "lb_Properties lb = Some props" and "InboundNatPools props = Some pools"
    and "resourceGroupAndLBNameFromId c (d_loadbalancer_id (rdata s)) = Inr (rg, n)"
  shows "(expandAzureRmLoadBalancerNatPool (rdata s) lb = Inr new \<longrightarrow>
            (\<exists>kept.
               submitted (calls (snd (resourceArmLoadBalancerNatPoolCreateUpdate c s))) =
                 submitted (calls s)
                   @ [lb\<lparr>lb_Properties := Some (props\<lparr>InboundNatPools := Some (kept @ [new])\<rparr>)\<rparr>]
               \<and> filter (\<lambda>p. \<not> named (d_name (rdata s)) p) kept =
                   filter (\<lambda>p. \<not> named (d_name (rdata s)) p) pools))
       \<and> (findLoadBalancerNatPoolByName lb (d_name (rdata s)) = Some (e, i) \<longrightarrow>
            i < length pools
            \<and> submitted (calls (snd (resourceArmLoadBalancerNatPoolDelete c s))) =
                submitted (calls s)
                  @ [lb\<lparr>lb_Properties := Some (props\<lparr>InboundNatPools :=
                         Some (take i pools @ drop (Suc i) pools)\<rparr>)\<rparr>])"
proof (intro conjI impI)
  let ?n = "d_name (rdata s)"
  assume built: "expandAzureRmLoadBalancerNatPool (rdata s) lb = Inr new"
  show "\<exists>kept.
          submitted (calls (snd (resourceArmLoadBalancerNatPoolCreateUpdate c s))) =
            submitted (calls s)
              @ [lb\<lparr>lb_Properties := Some (props\<lparr>InboundNatPools := Some (kept @ [new])\<rparr>)\<rparr>]
          \<and> filter (\<lambda>p. \<not> named ?n p) kept = filter (\<lambda>p. \<not> named ?n p) pools"
  proof (cases "locate np_Name ?n pools 0")
    case None
    from create_update_submits [OF assms(1,2,3) built working_not_found [OF assms(2,3) None] assms(4)]
    show ?thesis by blast
  next
    case (Some a)
    then obtain e' i' where found: "locate np_Name ?n pools 0 = Some (e', i')"
      by (cases a) simp
    from create_update_submits [OF assms(1,2,3) built working_found [OF assms(2,3) found] assms(4)]
      others_kept [OF found]
    show ?thesis
      by (intro exI [of _ "take i' pools @ drop (Suc i') pools"]) simp
  qed
next
  assume "findLoadBalancerNatPoolByName lb (d_name (rdata s)) = Some (e, i)"
  then have found: "locate np_Name (d_name (rdata s)) pools 0 = Some (e, i)"
    by (simp add: find_nat_pool [OF assms(2,3)])
  from locate_Some_0(1) [OF found] show "i < length pools" .
  from delete_submits [OF assms(1,2,3) found assms(4)]
  show "submitted (calls (snd (resourceArmLoadBalancerNatPoolDelete c s))) =
          submitted (calls s)
            @ [lb\<lparr>lb_Properties := Some (props\<lparr>InboundNatPools :=
                   Some (take i pools @ drop (Suc i) pools)\<rparr>)\<rparr>]" .
qed

text \<open>
  C5: delete returns no error and submits nothing (its only calls are the lock, the
  fetch and the release) when the parent load balancer is not found, and when no element
  of the desired name is in the parent's NAT-pool collection. Hence a second delete is
  such a run: when the fetched collection is the one that a delete of the element from a
  collection with unique names submitted, nothing is found and delete does nothing.
\<close>

theorem delete_idempotent:
  "(retrieveLoadBalancerById c (d_loadbalancer_id (rdata s)) (remote s) = (Inr None, w) \<longrightarrow>
      resourceArmLoadBalancerNatPoolDelete c s =
        (Inr (),
         s\<lparr>rdata := (rdata s)\<lparr>d_Id := []\<rparr>, remote := w,
           calls := calls s @ [E_Lock (d_loadbalancer_id (rdata s)),
                               E_Retrieve (d_loadbalancer_id (rdata s)),
                               E_Unlock (d_loadbalancer_id (rdata s))]\<rparr>))
   \<and> (retrieveLoadBalancerById c (d_loadbalancer_id (rdata s)) (remote s) = (Inr (Some lb), w)
        \<and> findLoadBalancerNatPoolByName lb (d_name (rdata s)) = None \<longrightarrow>
      resourceArmLoadBalancerNatPoolDelete c s =
        (Inr (),
         s\<lparr>remote := w,
           calls := calls s @ [E_Lock (d_loadbalancer_id (rdata s)),
                               E_Retrieve (d_loadbalancer_id (rdata s)),
                               E_Unlock (d_loadbalancer_id (rdata s))]\<rparr>))
   \<and> (locate np_Name (d_name (rdata s)) pools 0 = Some (e, i)
        \<and> length (filter (named (d_name (rdata s))) pools) = 1
        \<and> retrieveLoadBalancerById c (d_loadbalancer_id (rdata s)) (remote s) = (Inr (Some lb), w)
        \<and> lb_Properties lb = Some props
        \<and> InboundNatPools props = Some (take i pools @ drop (Suc i) pools) \<longrightarrow>
      resourceArmLoadBalancerNatPoolDelete c s =
        (Inr (),
         s\<lparr>remote := w,
           calls := calls s @ [E_Lock (d_loadbalancer_id (rdata s)),
                               E_Retrieve (d_loadbalancer_id (rdata s)),
                               E_Unlock (d_loadbalancer_id (rdata s))]\<rparr>))"
proof (intro conjI impI; (elim conjE)?)
  assume "retrieveLoadBalancerById c (d_loadbalancer_id (rdata s)) (remote s) = (Inr None, w)"
  then show "resourceArmLoadBalancerNatPoolDelete c s =
        (Inr (),
         s\<lparr>rdata := (rdata s)\<lparr>d_Id := []\<rparr>, remote := w,
           calls := calls s @ [E_Lock (d_loadbalancer_id (rdata s)),
                               E_Retrieve (d_loadbalancer_id (rdata s)),
                               E_Unlock (d_loadbalancer_id (rdata s))]\<rparr>)"
    by (simp add: resourceArmLoadBalancerNatPoolDelete_def deleteLocked_def emit_def SetId_def Let_def)
next
  assume "retrieveLoadBalancerById c (d_loadbalancer_id (rdata s)) (remote s) = (Inr (Some lb), w)"
    and "findLoadBalancerNatPoolByName lb (d_name (rdata s)) = None"
  then show "resourceArmLoadBalancerNatPoolDelete c s =
        (Inr (),
         s\<lparr>remote := w,
           calls := calls s @ [E_Lock (d_loadbalancer_id (rdata s)),
                               E_Retrieve (d_loadbalancer_id (rdata s)),
                               E_Unlock (d_loadbalancer_id (rdata s))]\<rparr>)"
    by (simp add: resourceArmLoadBalancerNatPoolDelete_def deleteLocked_def emit_def Let_def)
next
  assume found: "locate np_Name (d_name (rdata s)) pools 0 = Some (e, i)"
    and once: "length (filter (named (d_name (rdata s))) pools) = 1"
    and fetch: "retrieveLoadBalancerById c (d_loadbalancer_id (rdata s)) (remote s) = (Inr (Some lb), w)"
    and props: "lb_Properties lb = Some props"
    and rest: "InboundNatPools props = Some (take i pools @ drop (Suc i) pools)"
  from nothing_named_after [OF found once]
  have "locate np_Name (d_name (rdata s)) (take i pools @ drop (Suc i) pools) 0 = None"
    by (simp only: locate_None_iff named_filter)
  then have "findLoadBalancerNatPoolByName lb (d_name (rdata s)) = None"
    by (simp add: find_nat_pool [OF props rest])
  with fetch show "resourceArmLoadBalancerNatPoolDelete c s =
        (Inr (),
         s\<lparr>remote := w,
           calls := calls s @ [E_Lock (d_loadbalancer_id (rdata s)),
                               E_Retrieve (d_loadbalancer_id (rdata s)),
                               E_Unlock (d_loadbalancer_id (rdata s))]\<rparr>)"
    by (simp add: resourceArmLoadBalancerNatPoolDelete_def deleteLocked_def emit_def Let_def)
qed

lemma ex_expand:
  "expandAzureRmLoadBalancerNatPool (rdata (ex_state ''feip1'' w)) (ex_lb pools) =
     Inr ((ex_pool ''pool1'' 22)\<lparr>np_ID := None\<rparr>)"
  by (simp add: expandAzureRmLoadBalancerNatPool_def ex_state_def ex_d_def ex_lb_def ex_feip_def
      ex_pool_def findLoadBalancerFrontEndIpConfigurationByName_def FromInt32_def)

theorem create_update_overwrites_witness:
  "\<exists>natPools.
     submitted (calls (snd (resourceArmLoadBalancerNatPoolCreateUpdate
        (fixed_client (Inr (Some (ex_lb [ex_pool ''other'' 80, ex_pool ''pool1'' 80])))
           (Inr (''rg1'', ''lb1'')) ex_parse (Inr 0) None (Inr (ex_lb [])) None)
        (ex_state ''feip1'' ())))) =
       [(ex_lb [ex_pool ''other'' 80, ex_pool ''pool1'' 80])
          \<lparr>lb_Properties := Some \<lparr>FrontendIPConfigurations = Some [ex_feip],
                                  InboundNatPools = Some natPools\<rparr>\<rparr>]
     \<and> filter (named ''pool1'') natPools = [(ex_pool ''pool1'' 22)\<lparr>np_ID := None\<rparr>]"
proof -
  let ?lb = "ex_lb [ex_pool ''other'' 80, ex_pool ''pool1'' 80]"
  let ?c = "fixed_client (Inr (Some ?lb)) (Inr (''rg1'', ''lb1'')) ex_parse (Inr 0) None
              (Inr (ex_lb [])) None"
  let ?s = "ex_state ''feip1'' ()"
  have fetch: "retrieveLoadBalancerById ?c (d_loadbalancer_id (rdata ?s)) (remote ?s) = (Inr (Some ?lb), ())"
    by (simp add: fixed_client_def)
  have props: "lb_Properties ?lb = Some \<lparr>FrontendIPConfigurations = Some [ex_feip],
      InboundNatPools = Some [ex_pool ''other'' 80, ex_pool ''pool1'' 80]\<rparr>"
    by (simp add: ex_lb_def)
  have pools: "InboundNatPools \<lparr>FrontendIPConfigurations = Some [ex_feip],
      InboundNatPools = Some [ex_pool ''other'' 80, ex_pool ''pool1'' 80]\<rparr> =
      Some [ex_pool ''other'' 80, ex_pool ''pool1'' 80]"
    by simp
  have once: "length (filter (named (d_name (rdata ?s))) [ex_pool ''other'' 80, ex_pool ''pool1'' 80]) = 1"
    by (simp add: named_def ex_pool_def ex_state_def ex_d_def)
  have names: "resourceGroupAndLBNameFromId ?c (d_loadbalancer_id (rdata ?s)) = Inr (''rg1'', ''lb1'')"
    by (simp add: fixed_client_def)
  from create_update_overwrites [OF fetch props pools once ex_expand names]
  show ?thesis
    by (simp add: ex_state_def ex_d_def)
qed

theorem mutation_frame_witness:
  "(\<exists>kept.
      submitted (calls (snd (resourceArmLoadBalancerNatPoolCreateUpdate
         (fixed_client (Inr (Some (ex_lb [ex_pool ''other'' 80, ex_pool ''pool1'' 80])))
            (Inr (''rg1'', ''lb1'')) ex_parse (Inr 0) None (Inr (ex_lb [])) None)
         (ex_state ''feip1'' ())))) =
        [(ex_lb [ex_pool ''other'' 80, ex_pool ''pool1'' 80])
           \<lparr>lb_Properties := Some \<lparr>FrontendIPConfigurations = Some [ex_feip],
              InboundNatPools = Some (kept @ [(ex_pool ''pool1'' 22)\<lparr>np_ID := None\<rparr>])\<rparr>\<rparr>]
      \<and> filter (\<lambda>p. \<not> named ''pool1'' p) kept = [ex_pool ''other'' 80])
   \<and> submitted (calls (snd (resourceArmLoadBalancerNatPoolDelete
         (fixed_client (Inr (Some (ex_lb [ex_pool ''other'' 80, ex_pool ''pool1'' 80])))
            (Inr (''rg1'', ''lb1'')) ex_parse (Inr 0) None (Inr (ex_lb [])) None)
         (ex_state ''feip1'' ())))) =
        [(ex_lb [ex_pool ''other'' 80, ex_pool ''pool1'' 80])
           \<lparr>lb_Properties := Some \<lparr>FrontendIPConfigurations = Some [ex_feip],
              InboundNatPools = Some [ex_pool ''other'' 80]\<rparr>\<rparr>]"
proof -
  let ?lb = "ex_lb [ex_pool ''other'' 80, ex_pool ''pool1'' 80]"
  let ?c = "fixed_client (Inr (Some ?lb)) (Inr (''rg1'', ''lb1'')) ex_parse (Inr 0) None
              (Inr (ex_lb [])) None"
  let ?s = "ex_state ''feip1'' ()"
  have fetch: "retrieveLoadBalancerById ?c (d_loadbalancer_id (rdata ?s)) (remote ?s) = (Inr (Some ?lb), ())"
    by (simp add: fixed_client_def)
  have props: "lb_Properties ?lb = Some \<lparr>FrontendIPConfigurations = Some [ex_feip],
      InboundNatPools = Some [ex_pool ''other'' 80, ex_pool ''pool1'' 80]\<rparr>"
    by (simp add: ex_lb_def)
  have pools: "InboundNatPools \<lparr>FrontendIPConfigurations = Some [ex_feip],
      InboundNatPools = Some [ex_pool ''other'' 80, ex_pool ''pool1'' 80]\<rparr> =
      Some [ex_pool ''other'' 80, ex_pool ''pool1'' 80]"
    by simp
  have names: "resourceGroupAndLBNameFromId ?c (d_loadbalancer_id (rdata ?s)) = Inr (''rg1'', ''lb1'')"
    by (simp add: fixed_client_def)
  have found: "findLoadBalancerNatPoolByName ?lb (d_name (rdata ?s)) = Some (ex_pool ''pool1'' 80, 1)"
    by (simp add: findLoadBalancerNatPoolByName_def ex_lb_def ex_pool_def ex_state_def ex_d_def)
  have other: "filter (\<lambda>p. \<not> named ''pool1'' p) [ex_pool ''other'' 80, ex_pool ''pool1'' 80] =
      [ex_pool ''other'' 80]"
    by (simp add: named_def ex_pool_def)
  from mutation_frame [OF fetch props pools names,
      of "(ex_pool ''pool1'' 22)\<lparr>np_ID := None\<rparr>" "ex_pool ''pool1'' 80" 1]
    ex_expand [of "()" "[ex_pool ''other'' 80, ex_pool ''pool1'' 80]"] found other
  show ?thesis
    by (simp add: ex_state_def ex_d_def)
qed

theorem delete_idempotent_witness:
  "resourceArmLoadBalancerNatPoolDelete
     (fixed_client (Inr None) (Inr (''rg1'', ''lb1'')) ex_parse (Inr 0) None (Inr (ex_lb [])) None)
     (ex_state ''feip1'' ()) =
     (Inr (), \<lparr>rdata = (ex_d ''feip1'')\<lparr>d_Id := []\<rparr>, remote = (),
               calls = [E_Lock ''/lb1'', E_Retrieve ''/lb1'', E_Unlock ''/lb1'']\<rparr>)
   \<and> resourceArmLoadBalancerNatPoolDelete
       (fixed_client (Inr (Some (ex_lb [ex_pool ''other'' 80]))) (Inr (''rg1'', ''lb1'')) ex_parse
          (Inr 0) None (Inr (ex_lb [])) None)
       (ex_state ''feip1'' ()) =
       (Inr (), \<lparr>rdata = ex_d ''feip1'', remote = (),
                 calls = [E_Lock ''/lb1'', E_Retrieve ''/lb1'', E_Unlock ''/lb1'']\<rparr>)
   \<and> resourceArmLoadBalancerNatPoolDelete
       (fixed_client (Inr (Some (ex_lb (take 1 [ex_pool ''other'' 80, ex_pool ''pool1'' 80]
                                         @ drop 2 [ex_pool ''other'' 80, ex_pool ''pool1'' 80]))))
          (Inr (''rg1'', ''lb1'')) ex_parse (Inr 0) None (Inr (ex_lb [])) None)
       (ex_state ''feip1'' ()) =
       (Inr (), \<lparr>rdata = ex_d ''feip1'', remote = (),
                 calls = [E_Lock ''/lb1'', E_Retrieve ''/lb1'', E_Unlock ''/lb1'']\<rparr>)"
proof -
  let ?s = "ex_state ''feip1'' ()"
  let ?c1 = "fixed_client (Inr None) (Inr (''rg1'', ''lb1'')) ex_parse (Inr 0) None (Inr (ex_lb [])) None"
  let ?lb2 = "ex_lb [ex_pool ''other'' 80]"
  let ?c2 = "fixed_client (Inr (Some ?lb2)) (Inr (''rg1'', ''lb1'')) ex_parse (Inr 0) None
               (Inr (ex_lb [])) None"
  let ?pools = "[ex_pool ''other'' 80, ex_pool ''pool1'' 80]"
  let ?lb3 = "ex_lb (take 1 ?pools @ drop 2 ?pools)"
  let ?c3 = "fixed_client (Inr (Some ?lb3)) (Inr (''rg1'', ''lb1'')) ex_parse (Inr 0) None
               (Inr (ex_lb [])) None"
  have gone: "retrieveLoadBalancerById ?c1 (d_loadbalancer_id (rdata ?s)) (remote ?s) = (Inr None, ())"
    by (simp add: fixed_client_def)
  have fetch2: "retrieveLoadBalancerById ?c2 (d_loadbalancer_id (rdata ?s)) (remote ?s) = (Inr (Some ?lb2), ())"
    by (simp add: fixed_client_def)
  have absent: "findLoadBalancerNatPoolByName ?lb2 (d_name (rdata ?s)) = None"
    by (simp add: findLoadBalancerNatPoolByName_def ex_lb_def ex_pool_def ex_state_def ex_d_def)
  have found: "locate np_Name (d_name (rdata ?s)) ?pools 0 = Some (ex_pool ''pool1'' 80, 1)"
    by (simp add: ex_pool_def ex_state_def ex_d_def)
  have once: "length (filter (named (d_name (rdata ?s))) ?pools) = 1"
    by (simp add: named_def ex_pool_def ex_state_def ex_d_def)
  have fetch3: "retrieveLoadBalancerById ?c3 (d_loadbalancer_id (rdata ?s)) (remote ?s) = (Inr (Some ?lb3), ())"
    by (simp add: fixed_client_def)
  have props3: "lb_Properties ?lb3 = Some \<lparr>FrontendIPConfigurations = Some [ex_feip],
      InboundNatPools = Some (take 1 ?pools @ drop (Suc 1) ?pools)\<rparr>"
    by (simp add: ex_lb_def)
  have pools3: "InboundNatPools \<lparr>FrontendIPConfigurations = Some [ex_feip],
      InboundNatPools = Some (take 1 ?pools @ drop (Suc 1) ?pools)\<rparr> =
      Some (take 1 ?pools @ drop (Suc 1) ?pools)"
    by simp
  from delete_idempotent [where c = ?c1 and s = ?s and w = "()",
      THEN conjunct1, rule_format, OF gone]
    delete_idempotent [where c = ?c2 and s = ?s and w = "()" and lb = ?lb2,
      THEN conjunct2, THEN conjunct1, rule_format, OF conjI, OF fetch2 absent]
    delete_idempotent [where c = ?c3 and s = ?s and w = "()" and lb = ?lb3 and pools = ?pools
      and e = "ex_pool ''pool1'' 80" and i = 1,
      THEN conjunct2, THEN conjunct2, rule_format,
      OF conjI [OF found conjI [OF once conjI [OF fetch3 conjI [OF props3 pools3]]]]]
  show ?thesis
    by (simp add: ex_state_def ex_d_def)
qed

subsection \<open>Create and update, then read\<close>




lemma find_created_absent:
  assumes "list_all (\<lambda>p. np_Name p \<noteq> None) xs"
    and "filter (named n) xs = []"
  shows "findCreatedNatPoolId n (xs @ ys) acc = findCreatedNatPoolId n ys acc"
  using assms
  by (induction xs) (auto simp: named_def split: if_splits option.splits)











subsection \<open>The outcomes of the re-fetch\<close>

text \<open>The three cases of the re-fetch, for every remote: no identifier and no element
  of the name end in an error value, absent properties end in a panic.\<close>

lemma confirm_without_identifier:
  assumes "Get c rg n (remote s) = (Inr read, w)" and "lb_ID read = None"
  shows "fst (createUpdateConfirm c rg n s) =
           Inl (Errorf ''Cannot read LoadBalancer %q (Resource Group %q) ID'' [n, rg])"
    and "returns_error (fst (createUpdateConfirm c rg n s))"
  using assms by (simp_all add: createUpdateConfirm_def Let_def)

lemma confirm_not_found:
  assumes "Get c rg n (remote s) = (Inr read, w)" and "lb_ID read = Some i"
    and "lb_Properties read = Some rprops" and "InboundNatPools rprops = Some rpools"
    and "list_all (\<lambda>p. np_Name p \<noteq> None) rpools"
    and "filter (named (d_name (rdata s))) rpools = []"
  shows "fst (createUpdateConfirm c rg n s) =
           Inl (Errorf ''Cannot find created LoadBalancer NAT Pool ID %q'' [[]])"
    and "returns_error (fst (createUpdateConfirm c rg n s))"
proof -
  from find_created_absent [OF assms(5,6), of "[]" "[]"]
  have "findCreatedNatPoolId (d_name (rdata s)) rpools [] = Inr []"
    by simp
  with assms(1-4)
  show "fst (createUpdateConfirm c rg n s) =
           Inl (Errorf ''Cannot find created LoadBalancer NAT Pool ID %q'' [[]])"
    and "returns_error (fst (createUpdateConfirm c rg n s))"
    by (simp_all add: createUpdateConfirm_def Let_def rdata_emit)
qed

lemma confirm_without_properties:
  assumes "Get c rg n (remote s) = (Inr read, w)" and "lb_ID read = Some i"
    and "lb_Properties read = None"
  shows "fst (createUpdateConfirm c rg n s) = Inl (Panic NilPointerDereference)"
    and "is_panic (fst (createUpdateConfirm c rg n s))"
  using assms by (simp_all add: createUpdateConfirm_def Let_def)

lemma confirm_without_collection:
  assumes "Get c rg n (remote s) = (Inr read, w)" and "lb_ID read = Some i"
    and "lb_Properties read = Some rprops" and "InboundNatPools rprops = None"
  shows "fst (createUpdateConfirm c rg n s) = Inl (Panic NilPointerDereference)"
    and "is_panic (fst (createUpdateConfirm c rg n s))"
  using assms by (simp_all add: createUpdateConfirm_def Let_def)

end
